theory Spec2Isabelle
  imports Main "HOL-Library.AList"
begin

section \<open>Data model (shared schema)\<close>

text \<open>
  The schema declares three tables; the TypeScript types \<open>InsertUser\<close>, \<open>User\<close>,
  \<open>InsertContact\<close>, \<open>Contact\<close>, \<open>InsertMessage\<close> and \<open>Message\<close> are inferred from them.
  An object built with a spread (\<open>{ ...insertMessage, id, sentAt, isRead }\<close>) is the
  insert record extended by the remaining columns. The columns other than \<open>id\<close> form
  the type \<open>Omit<T, 'id'>\<close>, which the MongoDB documents extend by \<open>_id\<close>; it is the
  record \<open>UserRow\<close>, \<open>InsertContact\<close> or \<open>MessageRow\<close>, and the full row extends it by the
  column \<open>id\<close>, written \<open>User_id\<close>, \<open>Contact_id\<close>, \<open>Message_id\<close> (the name \<open>id\<close> is the
  identity function of HOL).

  Numbers are \<open>int\<close>: identifiers are small counters and the 2^53 limit of a JavaScript
  number is out of reach of the increments modelled here. A \<open>Date\<close> is its time value in
  milliseconds; every \<open>new Date()\<close> of the source reads the clock, which the model takes as
  the parameter \<open>now\<close> of the operation that reads it.
\<close>

record InsertUser =
  username :: string
  password :: string
  displayName :: string

record UserRow = InsertUser +
  isOnline :: bool
  avatar :: "string option"
  lastSeen :: int

record User = UserRow +
  User_id :: int

record InsertContact =
  userId :: int
  contactId :: int

record Contact = InsertContact +
  Contact_id :: int

record InsertMessage =
  senderId :: int
  receiverId :: int
  content :: string

record MessageRow = InsertMessage +
  sentAt :: int
  isRead :: bool

record Message = MessageRow +
  Message_id :: int

record Conversation =
  contact :: User
  lastMessage :: Message

section \<open>JavaScript containers\<close>

text \<open>
  A JavaScript \<open>Map\<close> iterates in insertion order; \<open>set\<close> on a key that is present
  replaces the value in place and on a new key appends; \<open>delete\<close> removes the key. It is
  an association list with these operations. \<open>Array.prototype.sort\<close> is stable, so sorting
  by a comparator \<open>a.k - b.k\<close> is the stable sort by the key \<open>k\<close>, and the comparator
  \<open>b.k - a.k\<close> the stable sort by \<open>-k\<close>.
\<close>

type_synonym ('k, 'v) JSMap = "('k \<times> 'v) list"

definition Map_get :: "('k, 'v) JSMap \<Rightarrow> 'k \<Rightarrow> 'v option" where
  "Map_get m k = map_of m k"

definition Map_has :: "('k, 'v) JSMap \<Rightarrow> 'k \<Rightarrow> bool" where
  "Map_has m k = (map_of m k \<noteq> None)"

definition Map_set :: "('k, 'v) JSMap \<Rightarrow> 'k \<Rightarrow> 'v \<Rightarrow> ('k, 'v) JSMap" where
  "Map_set m k v = AList.update k v m"

definition Map_delete :: "('k, 'v) JSMap \<Rightarrow> 'k \<Rightarrow> ('k, 'v) JSMap" where
  "Map_delete m k = AList.delete k m"

definition Map_values :: "('k, 'v) JSMap \<Rightarrow> 'v list" where
  "Map_values m = map snd m"

definition sort_ascending :: "('a \<Rightarrow> int) \<Rightarrow> 'a list \<Rightarrow> 'a list" where
  "sort_ascending k xs = sort_key k xs"

definition sort_descending :: "('a \<Rightarrow> int) \<Rightarrow> 'a list \<Rightarrow> 'a list" where
  "sort_descending k xs = sort_key (\<lambda>x. - k x) xs"

section \<open>The in-memory store: class MemStorage\<close>

record MemStorage =
  users :: "(int, User) JSMap"
  contacts :: "(int, Contact) JSMap"
  messages :: "(int, Message) JSMap"
  currentUserId :: int
  currentContactId :: int
  currentMessageId :: int

text \<open>The constructor: three empty maps, the three counters at 1.\<close>

definition MemStorage_new :: MemStorage where
  "MemStorage_new =
     \<lparr>users = [], contacts = [], messages = [],
      currentUserId = 1, currentContactId = 1, currentMessageId = 1\<rparr>"

text \<open>
  Every method of the class is a function from the store to its result and the store
  after the call. The methods are \<open>async\<close> but contain no suspension point of their own.
\<close>

definition MemStorage_getUser :: "int \<Rightarrow> MemStorage \<Rightarrow> User option" where
  "MemStorage_getUser i s = Map_get (users s) i"

definition MemStorage_getUserByUsername :: "string \<Rightarrow> MemStorage \<Rightarrow> User option" where
  "MemStorage_getUserByUsername name s =
     find (\<lambda>user. username user = name) (Map_values (users s))"

definition MemStorage_createUser ::
  "InsertUser \<Rightarrow> int \<Rightarrow> MemStorage \<Rightarrow> User \<times> MemStorage" where
  "MemStorage_createUser insertUser now s =
     (let i = currentUserId s;
          user = \<lparr>username = username insertUser, password = password insertUser,
                  displayName = displayName insertUser,
                  isOnline = False, avatar = None, lastSeen = now, User_id = i\<rparr>
      in (user, s\<lparr>currentUserId := i + 1, users := Map_set (users s) i user\<rparr>))"

definition MemStorage_updateUserStatus ::
  "int \<Rightarrow> bool \<Rightarrow> int \<Rightarrow> MemStorage \<Rightarrow> User option \<times> MemStorage" where
  "MemStorage_updateUserStatus i online now s =
     (case Map_get (users s) i of
        None \<Rightarrow> (None, s)
      | Some user \<Rightarrow>
          (let updatedUser = user\<lparr>isOnline := online\<rparr>;
               updatedUser = (if \<not> online then updatedUser\<lparr>lastSeen := now\<rparr>
                              else updatedUser)
           in (Some updatedUser, s\<lparr>users := Map_set (users s) i updatedUser\<rparr>)))"

definition MemStorage_updateUserLastSeen ::
  "int \<Rightarrow> int \<Rightarrow> MemStorage \<Rightarrow> User option \<times> MemStorage" where
  "MemStorage_updateUserLastSeen i now s =
     (case Map_get (users s) i of
        None \<Rightarrow> (None, s)
      | Some user \<Rightarrow>
          (let updatedUser = user\<lparr>lastSeen := now\<rparr>
           in (Some updatedUser, s\<lparr>users := Map_set (users s) i updatedUser\<rparr>)))"

definition MemStorage_getContacts :: "int \<Rightarrow> MemStorage \<Rightarrow> User list" where
  "MemStorage_getContacts uid s =
     (let contactEntries = filter (\<lambda>c. userId c = uid) (Map_values (contacts s))
      in List.map_filter (\<lambda>c. MemStorage_getUser (contactId c) s) contactEntries)"

definition MemStorage_addContact ::
  "InsertContact \<Rightarrow> MemStorage \<Rightarrow> Contact \<times> MemStorage" where
  "MemStorage_addContact insertContact s =
     (let i = currentContactId s;
          c = \<lparr>userId = userId insertContact, contactId = contactId insertContact,
               Contact_id = i\<rparr>
      in (c, s\<lparr>currentContactId := i + 1, contacts := Map_set (contacts s) i c\<rparr>))"

definition MemStorage_removeContact ::
  "int \<Rightarrow> int \<Rightarrow> MemStorage \<Rightarrow> bool \<times> MemStorage" where
  "MemStorage_removeContact uid cid s =
     (case find (\<lambda>c. userId c = uid \<and> contactId c = cid) (Map_values (contacts s)) of
        None \<Rightarrow> (False, s)
      | Some contactEntry \<Rightarrow>
          (True, s\<lparr>contacts := Map_delete (contacts s) (Contact_id contactEntry)\<rparr>))"

definition MemStorage_getMessages :: "int \<Rightarrow> int \<Rightarrow> MemStorage \<Rightarrow> Message list" where
  "MemStorage_getMessages uid cid s =
     sort_ascending sentAt
       (filter (\<lambda>m. (senderId m = uid \<and> receiverId m = cid) \<or>
                     (senderId m = cid \<and> receiverId m = uid))
               (Map_values (messages s)))"

definition MemStorage_createMessage ::
  "InsertMessage \<Rightarrow> int \<Rightarrow> MemStorage \<Rightarrow> Message \<times> MemStorage" where
  "MemStorage_createMessage insertMessage now s =
     (let i = currentMessageId s;
          message = \<lparr>senderId = senderId insertMessage,
                     receiverId = receiverId insertMessage,
                     content = content insertMessage,
                     sentAt = now, isRead = False, Message_id = i\<rparr>
      in (message, s\<lparr>currentMessageId := i + 1,
                      messages := Map_set (messages s) i message\<rparr>))"

definition MemStorage_markMessageAsRead ::
  "int \<Rightarrow> MemStorage \<Rightarrow> Message option \<times> MemStorage" where
  "MemStorage_markMessageAsRead messageId s =
     (case Map_get (messages s) messageId of
        None \<Rightarrow> (None, s)
      | Some message \<Rightarrow>
          (let updatedMessage = message\<lparr>isRead := True\<rparr>
           in (Some updatedMessage,
               s\<lparr>messages := Map_set (messages s) messageId updatedMessage\<rparr>)))"

text \<open>
  \<open>getRecentConversations\<close>: the messages with the user on either side are grouped, in a
  \<open>Map\<close> keyed by the other participant, in the order in which the participants first
  occur; \<open>group_message\<close> is the body of the \<open>forEach\<close>. Each group is sorted newest first
  and its head taken (\<open>msgs[0]\<close>; a group is never empty, see \<open>conversationMap_nonempty\<close>),
  groups whose key is not a user are skipped, and the result is sorted newest first.
\<close>

definition group_message ::
  "int \<Rightarrow> (int, Message list) JSMap \<Rightarrow> Message \<Rightarrow> (int, Message list) JSMap" where
  "group_message uid conversationMap message =
     (let cid = (if senderId message = uid then receiverId message else senderId message);
          conversationMap = (if \<not> Map_has conversationMap cid
                             then Map_set conversationMap cid []
                             else conversationMap)
      in Map_set conversationMap cid (the (Map_get conversationMap cid) @ [message]))"

definition conversationMap_of :: "int \<Rightarrow> Message list \<Rightarrow> (int, Message list) JSMap" where
  "conversationMap_of uid userMessages = foldl (group_message uid) [] userMessages"

definition MemStorage_getRecentConversations ::
  "int \<Rightarrow> MemStorage \<Rightarrow> Conversation list" where
  "MemStorage_getRecentConversations uid s =
     (let userMessages = filter (\<lambda>m. senderId m = uid \<or> receiverId m = uid)
                                (Map_values (messages s));
          conversationMap = conversationMap_of uid userMessages;
          conversations =
            List.map_filter
              (\<lambda>(cid, msgs).
                 case MemStorage_getUser cid s of
                   None \<Rightarrow> None
                 | Some c \<Rightarrow>
                     Some \<lparr>contact = c,
                           lastMessage = hd (sort_descending sentAt msgs)\<rparr>)
              conversationMap
      in sort_descending (\<lambda>c. sentAt (lastMessage c)) conversations)"

section \<open>The storage interface: IStorage\<close>

text \<open>
  The routes and the socket handlers use the store through the interface \<open>IStorage\<close>
  only. A method either returns or throws; the store after the call is returned in both
  cases. The four methods below are the ones the handlers modelled here call.
\<close>

datatype Thrown = Thrown string

record 'st IStorage =
  getUser :: "int \<Rightarrow> 'st \<Rightarrow> (Thrown + User option) \<times> 'st"
  updateUserStatus :: "int \<Rightarrow> bool \<Rightarrow> int \<Rightarrow> 'st \<Rightarrow> (Thrown + User option) \<times> 'st"
  createMessage :: "InsertMessage \<Rightarrow> int \<Rightarrow> 'st \<Rightarrow> (Thrown + Message) \<times> 'st"
  markMessageAsRead :: "int \<Rightarrow> 'st \<Rightarrow> (Thrown + Message option) \<times> 'st"

text \<open>\<open>new MemStorage()\<close> behind the interface: none of its methods throws.\<close>

definition returns :: "'a \<times> 'st \<Rightarrow> (Thrown + 'a) \<times> 'st" where
  "returns r = (Inr (fst r), snd r)"

definition MemStorage_IStorage :: "MemStorage IStorage" where
  "MemStorage_IStorage =
     \<lparr>getUser = (\<lambda>i s. returns (MemStorage_getUser i s, s)),
      updateUserStatus = (\<lambda>i online now s. returns (MemStorage_updateUserStatus i online now s)),
      createMessage = (\<lambda>m now s. returns (MemStorage_createMessage m now s)),
      markMessageAsRead = (\<lambda>i s. returns (MemStorage_markMessageAsRead i s))\<rparr>"

section \<open>The socket server of registerRoutes\<close>

text \<open>
  A connection handle is a number. The server state holds the registry \<open>clients\<close> (a
  \<open>Map\<close> from user id to connection), the store, for every connection the variable
  \<open>userId\<close> of its closure (\<open>None\<close> is \<open>null\<close> or \<open>undefined\<close>) and its \<open>readyState\<close>, and
  the log \<open>sent\<close> of the calls of \<open>send\<close>, oldest first, each with the connection it was
  called on.

  Each handler is modelled as one step: it runs from its first statement to its last
  without another handler running in between. The interleaving of two handlers at an
  \<open>await\<close> is not part of this model.
\<close>

type_synonym ws = nat

datatype ReadyState = CONNECTING | OPEN | CLOSING | CLOSED

datatype WSMessage =
    WS_status_change int bool
  | WS_message Message
  | WS_message_sent Message
  | WS_read_receipt int int
  | WS_typing int bool

text \<open>
  What arrives on a connection: text that \<open>JSON.parse\<close> rejects or an envelope without a
  payload object (both throw inside the \<open>try\<close>), one of the four event types with its
  payload, or an envelope of any other type.
\<close>

datatype ClientEvent =
    Unparseable
  | Authenticate "int option"
  | SendMessage int string
  | ReadReceipt int
  | Typing int bool
  | UnknownType string

record 'st Server =
  clients :: "(int, ws) JSMap"
  storage :: 'st
  conn_userId :: "ws \<Rightarrow> int option"
  readyState :: "ws \<Rightarrow> ReadyState"
  sent :: "(ws \<times> WSMessage) list"

definition Server_new :: "'st \<Rightarrow> 'st Server" where
  "Server_new st =
     \<lparr>clients = [], storage = st, conn_userId = (\<lambda>_. None),
      readyState = (\<lambda>_. CLOSED), sent = []\<rparr>"

text \<open>The truth value of \<open>userId\<close> in a condition: \<open>null\<close>, \<open>undefined\<close> and 0 are false.\<close>

definition truthy :: "int option \<Rightarrow> bool" where
  "truthy u = (case u of None \<Rightarrow> False | Some i \<Rightarrow> i \<noteq> 0)"

definition send :: "ws \<Rightarrow> WSMessage \<Rightarrow> 'st Server \<Rightarrow> 'st Server" where
  "send c m s = s\<lparr>sent := sent s @ [(c, m)]\<rparr>"

text \<open>\<open>const w = clients.get(k); if (w && w.readyState === WebSocket.OPEN) w.send(m)\<close>\<close>

definition send_if_open :: "int \<Rightarrow> WSMessage \<Rightarrow> 'st Server \<Rightarrow> 'st Server" where
  "send_if_open k m s =
     (case Map_get (clients s) k of
        None \<Rightarrow> s
      | Some w \<Rightarrow> if readyState s w = OPEN then send w m s else s)"

text \<open>\<open>wss.on('connection')\<close>: a new open connection whose \<open>userId\<close> is \<open>null\<close>.\<close>

definition ws_on_connection :: "ws \<Rightarrow> 'st Server \<Rightarrow> 'st Server" where
  "ws_on_connection c s =
     s\<lparr>conn_userId := (conn_userId s)(c := None),
       readyState := (readyState s)(c := OPEN)\<rparr>"

text \<open>The transport's own transitions of a connection: closing, then closed.\<close>

definition set_readyState :: "ws \<Rightarrow> ReadyState \<Rightarrow> 'st Server \<Rightarrow> 'st Server" where
  "set_readyState c r s = s\<lparr>readyState := (readyState s)(c := r)\<rparr>"

text \<open>
  \<open>ws.on('message')\<close>. An exception anywhere in the body is caught and logged: the
  handler ends there, with the effects it had so far.
\<close>

fun ws_on_message ::
  "'st IStorage \<Rightarrow> ws \<Rightarrow> ClientEvent \<Rightarrow> int \<Rightarrow> 'st Server \<Rightarrow> 'st Server" where
  "ws_on_message S c Unparseable now s = s"
| "ws_on_message S c (Authenticate uid) now s =
     (let s = s\<lparr>conn_userId := (conn_userId s)(c := uid)\<rparr>
      in if truthy uid then
           (let u = the uid;
                s = s\<lparr>clients := Map_set (clients s) u c\<rparr>;
                (r, st) = updateUserStatus S u True now (storage s);
                s = s\<lparr>storage := st\<rparr>
            in case r of
                 Inl e \<Rightarrow> s
               | Inr _ \<Rightarrow>
                   s\<lparr>sent := sent s @
                       map (\<lambda>(clientId, client). (client, WS_status_change u True))
                         (filter (\<lambda>(clientId, client).
                                    clientId \<noteq> u \<and> readyState s client = OPEN)
                                 (clients s))\<rparr>)
         else s)"
| "ws_on_message S c (SendMessage rid text) now s =
     (if truthy (conn_userId s c) then
        (let u = the (conn_userId s c);
             (r, st) = createMessage S
                         \<lparr>senderId = u, receiverId = rid, content = text\<rparr> now (storage s);
             s = s\<lparr>storage := st\<rparr>
         in case r of
              Inl e \<Rightarrow> s
            | Inr m \<Rightarrow> send c (WS_message_sent m) (send_if_open rid (WS_message m) s))
      else s)"
| "ws_on_message S c (ReadReceipt messageId) now s =
     (if truthy (conn_userId s c) then
        (let (r, st) = markMessageAsRead S messageId (storage s);
             s = s\<lparr>storage := st\<rparr>
         in case r of
              Inl e \<Rightarrow> s
            | Inr None \<Rightarrow> s
            | Inr (Some m) \<Rightarrow> send_if_open (senderId m) (WS_read_receipt messageId now) s)
      else s)"
| "ws_on_message S c (Typing rid isTyping) now s =
     (if truthy (conn_userId s c) then
        send_if_open rid (WS_typing (the (conn_userId s c)) isTyping) s
      else s)"
| "ws_on_message S c (UnknownType t) now s = s"

text \<open>
  \<open>ws.on('close')\<close>. There is no \<open>try\<close> here: when \<open>updateUserStatus\<close> throws, the
  handler's promise is rejected after the registry entry has been deleted and nothing is
  broadcast.
\<close>

definition ws_on_close :: "'st IStorage \<Rightarrow> ws \<Rightarrow> int \<Rightarrow> 'st Server \<Rightarrow> 'st Server" where
  "ws_on_close S c now s =
     (if truthy (conn_userId s c) then
        (let u = the (conn_userId s c);
             s = s\<lparr>clients := Map_delete (clients s) u\<rparr>;
             (r, st) = updateUserStatus S u False now (storage s);
             s = s\<lparr>storage := st\<rparr>
         in case r of
              Inl e \<Rightarrow> s
            | Inr _ \<Rightarrow>
                s\<lparr>sent := sent s @
                    map (\<lambda>client. (client, WS_status_change u False))
                      (filter (\<lambda>client. readyState s client = OPEN)
                              (Map_values (clients s)))\<rparr>)
      else s)"

section \<open>The route POST /api/messages\<close>

text \<open>
  The request carries the session's user (absent when not authenticated) and the body
  fields \<open>receiverId\<close> and \<open>content\<close>, each of which may be missing.
\<close>

datatype Response =
    SendStatus nat
  | JsonError nat string
  | JsonMessage nat Message

definition post_api_messages ::
  "'st IStorage \<Rightarrow> User option \<Rightarrow> int option \<Rightarrow> string option \<Rightarrow> int \<Rightarrow> 'st
     \<Rightarrow> Response \<times> 'st" where
  "post_api_messages S req_user receiverId_opt content_opt now st =
     (case req_user of
        None \<Rightarrow> (SendStatus 401, st)
      | Some user \<Rightarrow>
          if \<not> truthy receiverId_opt \<or> content_opt = None \<or> content_opt = Some []
          then (JsonError 400 ''Receiver ID and content are required'', st)
          else
            (case getUser S (the receiverId_opt) st of
               (Inl (Thrown msg), st) \<Rightarrow> (JsonError 500 msg, st)
             | (Inr None, st) \<Rightarrow> (JsonError 404 ''Receiver not found'', st)
             | (Inr (Some receiver), st) \<Rightarrow>
                 (case createMessage S
                         \<lparr>senderId = User_id user, receiverId = the receiverId_opt,
                          content = the content_opt\<rparr> now st of
                    (Inl (Thrown msg), st) \<Rightarrow> (JsonError 500 msg, st)
                  | (Inr message, st) \<Rightarrow> (JsonMessage 201 message, st))))"

section \<open>The MongoDB store: class MongoDBStorage\<close>

text \<open>
  A MongoDB document is the row without \<open>id\<close> extended by \<open>_id\<close>, an \<open>ObjectId\<close>
  (written \<open>User_oid\<close>, \<open>Contact_oid\<close>, \<open>Message_oid\<close>). A collection is the list of its
  documents in insertion order and the database is connected. The driver is not part of
  the repository; the three calls the methods below use are modelled as the driver
  documents them:
  \<^item> \<open>insertOne\<close> appends the document, or throws a duplicate-key error when a document
    of the collection clashes with it on \<open>_id\<close> or on the unique index that
    \<open>initialize\<close> creates for the collection;
  \<^item> \<open>findOne\<close> returns the first document that matches;
  \<^item> \<open>findOneAndUpdate\<close> with \<open>returnDocument: 'after'\<close> updates the first document
    that matches and returns it as updated.

  Every \<open>new ObjectId()\<close> is a parameter of the method that calls it. The two
  conversions between an \<open>ObjectId\<close> and a number are parameters too:
  \<open>parseInt(_id.toString())\<close> and \<open>new ObjectId(n.toString())\<close>, which throws for a
  text that is not an \<open>ObjectId\<close> (\<open>None\<close>).
\<close>

datatype ObjectId = ObjectId nat

record MongoDBUser = UserRow +
  User_oid :: ObjectId

record MongoDBContact = InsertContact +
  Contact_oid :: ObjectId

record MongoDBMessage = MessageRow +
  Message_oid :: ObjectId

record MongoDB =
  users_collection :: "MongoDBUser list"
  contacts_collection :: "MongoDBContact list"
  messages_collection :: "MongoDBMessage list"

definition MongoDB_empty :: MongoDB where
  "MongoDB_empty =
     \<lparr>users_collection = [], contacts_collection = [], messages_collection = []\<rparr>"

definition insertOne :: "('d \<Rightarrow> 'd \<Rightarrow> bool) \<Rightarrow> 'd \<Rightarrow> 'd list \<Rightarrow> Thrown + 'd list" where
  "insertOne clash doc coll =
     (if list_ex (\<lambda>d. clash d doc) coll then Inl (Thrown ''E11000 duplicate key error'')
      else Inr (coll @ [doc]))"

definition findOne :: "('d \<Rightarrow> bool) \<Rightarrow> 'd list \<Rightarrow> 'd option" where
  "findOne p coll = find p coll"

fun findOneAndUpdate :: "('d \<Rightarrow> bool) \<Rightarrow> ('d \<Rightarrow> 'd) \<Rightarrow> 'd list \<Rightarrow> 'd option \<times> 'd list" where
  "findOneAndUpdate p f [] = (None, [])"
| "findOneAndUpdate p f (d # ds) =
     (if p d then (Some (f d), f d # ds)
      else (case findOneAndUpdate p f ds of (r, ds') \<Rightarrow> (r, d # ds')))"

text \<open>The unique indexes of \<open>initialize\<close>, each together with the one on \<open>_id\<close>.\<close>

definition users_clash :: "MongoDBUser \<Rightarrow> MongoDBUser \<Rightarrow> bool" where
  "users_clash d doc = (User_oid d = User_oid doc \<or> username d = username doc)"

definition contacts_clash :: "MongoDBContact \<Rightarrow> MongoDBContact \<Rightarrow> bool" where
  "contacts_clash d doc =
     (Contact_oid d = Contact_oid doc \<or> (userId d = userId doc \<and> contactId d = contactId doc))"

definition messages_clash :: "MongoDBMessage \<Rightarrow> MongoDBMessage \<Rightarrow> bool" where
  "messages_clash d doc = (Message_oid d = Message_oid doc)"

definition mapMongoUserToUser :: "(ObjectId \<Rightarrow> int) \<Rightarrow> MongoDBUser \<Rightarrow> User" where
  "mapMongoUserToUser parseInt mongoUser =
     \<lparr>username = username mongoUser, password = password mongoUser,
      displayName = displayName mongoUser, isOnline = isOnline mongoUser,
      avatar = avatar mongoUser, lastSeen = lastSeen mongoUser,
      User_id = parseInt (User_oid mongoUser)\<rparr>"

definition mapMongoContactToContact :: "(ObjectId \<Rightarrow> int) \<Rightarrow> MongoDBContact \<Rightarrow> Contact" where
  "mapMongoContactToContact parseInt mongoContact =
     \<lparr>userId = userId mongoContact, contactId = contactId mongoContact,
      Contact_id = parseInt (Contact_oid mongoContact)\<rparr>"

definition mapMongoMessageToMessage :: "(ObjectId \<Rightarrow> int) \<Rightarrow> MongoDBMessage \<Rightarrow> Message" where
  "mapMongoMessageToMessage parseInt mongoMessage =
     \<lparr>senderId = senderId mongoMessage, receiverId = receiverId mongoMessage,
      content = content mongoMessage, sentAt = sentAt mongoMessage,
      isRead = isRead mongoMessage, Message_id = parseInt (Message_oid mongoMessage)\<rparr>"

text \<open>
  \<open>createUser\<close>, \<open>addContact\<close> and \<open>createMessage\<close> log and rethrow what the driver
  throws; \<open>markMessageAsRead\<close> logs it and returns \<open>undefined\<close>.
\<close>

definition MongoDBStorage_createUser ::
  "(ObjectId \<Rightarrow> int) \<Rightarrow> InsertUser \<Rightarrow> ObjectId \<Rightarrow> int \<Rightarrow> MongoDB
     \<Rightarrow> (Thrown + User) \<times> MongoDB" where
  "MongoDBStorage_createUser parseInt insertUser oid now db =
     (case insertOne users_clash
             \<lparr>username = username insertUser, password = password insertUser,
              displayName = displayName insertUser, isOnline = True, avatar = None,
              lastSeen = now, User_oid = oid\<rparr>
             (users_collection db) of
        Inl e \<Rightarrow> (Inl e, db)
      | Inr coll \<Rightarrow>
          (let db = db\<lparr>users_collection := coll\<rparr>
           in case findOne (\<lambda>d. User_oid d = oid) coll of
                None \<Rightarrow> (Inl (Thrown ''User not found after creation''), db)
              | Some user \<Rightarrow> (Inr (mapMongoUserToUser parseInt user), db)))"

definition MongoDBStorage_addContact ::
  "(ObjectId \<Rightarrow> int) \<Rightarrow> InsertContact \<Rightarrow> ObjectId \<Rightarrow> MongoDB
     \<Rightarrow> (Thrown + Contact) \<times> MongoDB" where
  "MongoDBStorage_addContact parseInt insertContact oid db =
     (case findOne (\<lambda>d. userId d = userId insertContact \<and>
                         contactId d = contactId insertContact)
             (contacts_collection db) of
        Some existingContact \<Rightarrow> (Inr (mapMongoContactToContact parseInt existingContact), db)
      | None \<Rightarrow>
          (case insertOne contacts_clash
                  \<lparr>userId = userId insertContact, contactId = contactId insertContact,
                   Contact_oid = oid\<rparr>
                  (contacts_collection db) of
             Inl e \<Rightarrow> (Inl e, db)
           | Inr coll \<Rightarrow>
               (let db = db\<lparr>contacts_collection := coll\<rparr>
                in case findOne (\<lambda>d. Contact_oid d = oid) coll of
                     None \<Rightarrow> (Inl (Thrown ''Contact not found after creation''), db)
                   | Some c \<Rightarrow> (Inr (mapMongoContactToContact parseInt c), db))))"

definition MongoDBStorage_createMessage ::
  "(ObjectId \<Rightarrow> int) \<Rightarrow> InsertMessage \<Rightarrow> ObjectId \<Rightarrow> int \<Rightarrow> MongoDB
     \<Rightarrow> (Thrown + Message) \<times> MongoDB" where
  "MongoDBStorage_createMessage parseInt insertMessage oid now db =
     (case insertOne messages_clash
             \<lparr>senderId = senderId insertMessage, receiverId = receiverId insertMessage,
              content = content insertMessage, sentAt = now, isRead = False,
              Message_oid = oid\<rparr>
             (messages_collection db) of
        Inl e \<Rightarrow> (Inl e, db)
      | Inr coll \<Rightarrow>
          (let db = db\<lparr>messages_collection := coll\<rparr>
           in case findOne (\<lambda>d. Message_oid d = oid) coll of
                None \<Rightarrow> (Inl (Thrown ''Message not found after creation''), db)
              | Some m \<Rightarrow> (Inr (mapMongoMessageToMessage parseInt m), db)))"

definition MongoDBStorage_markMessageAsRead ::
  "(ObjectId \<Rightarrow> int) \<Rightarrow> (int \<Rightarrow> ObjectId option) \<Rightarrow> int \<Rightarrow> MongoDB
     \<Rightarrow> Message option \<times> MongoDB" where
  "MongoDBStorage_markMessageAsRead parseInt newObjectId messageId db =
     (case newObjectId messageId of
        None \<Rightarrow> (None, db)
      | Some objectId \<Rightarrow>
          (case findOneAndUpdate (\<lambda>d. Message_oid d = objectId) (\<lambda>d. d\<lparr>isRead := True\<rparr>)
                  (messages_collection db) of
             (None, coll) \<Rightarrow> (None, db\<lparr>messages_collection := coll\<rparr>)
           | (Some result, coll) \<Rightarrow>
               (Some (mapMongoMessageToMessage parseInt result),
                db\<lparr>messages_collection := coll\<rparr>)))"

section \<open>Sequences of store operations\<close>

text \<open>
  The methods of \<open>MemStorage\<close> that write, as operations; a reachable store is the
  result of running a sequence of them, each at its clock value, from the constructor's
  store. The other methods only read.
\<close>

datatype MemOp =
    CreateUser InsertUser
  | UpdateUserStatus int bool
  | UpdateUserLastSeen int
  | AddContact InsertContact
  | RemoveContact int int
  | CreateMessage InsertMessage
  | MarkMessageAsRead int

fun MemStorage_step :: "MemOp \<Rightarrow> int \<Rightarrow> MemStorage \<Rightarrow> MemStorage" where
  "MemStorage_step (CreateUser u) now s = snd (MemStorage_createUser u now s)"
| "MemStorage_step (UpdateUserStatus i online) now s =
     snd (MemStorage_updateUserStatus i online now s)"
| "MemStorage_step (UpdateUserLastSeen i) now s = snd (MemStorage_updateUserLastSeen i now s)"
| "MemStorage_step (AddContact c) now s = snd (MemStorage_addContact c s)"
| "MemStorage_step (RemoveContact u c) now s = snd (MemStorage_removeContact u c s)"
| "MemStorage_step (CreateMessage m) now s = snd (MemStorage_createMessage m now s)"
| "MemStorage_step (MarkMessageAsRead k) now s = snd (MemStorage_markMessageAsRead k s)"

definition MemStorage_run :: "(MemOp \<times> int) list \<Rightarrow> MemStorage \<Rightarrow> MemStorage" where
  "MemStorage_run tr s = foldl (\<lambda>s (op, now). MemStorage_step op now s) s tr"

text \<open>The same for the two methods of \<open>MongoDBStorage\<close> that write messages.\<close>

datatype MongoOp =
    MongoCreateMessage InsertMessage ObjectId
  | MongoMarkMessageAsRead int

fun MongoDBStorage_step ::
  "(ObjectId \<Rightarrow> int) \<Rightarrow> (int \<Rightarrow> ObjectId option) \<Rightarrow> MongoOp \<Rightarrow> int \<Rightarrow> MongoDB \<Rightarrow> MongoDB" where
  "MongoDBStorage_step parseInt newObjectId (MongoCreateMessage m oid) now db =
     snd (MongoDBStorage_createMessage parseInt m oid now db)"
| "MongoDBStorage_step parseInt newObjectId (MongoMarkMessageAsRead k) now db =
     snd (MongoDBStorage_markMessageAsRead parseInt newObjectId k db)"

text \<open>Every key of the message map has been issued by the counter.\<close>

definition message_ids_issued :: "MemStorage \<Rightarrow> bool" where
  "message_ids_issued s = (\<forall>k \<in> set (map fst (messages s)). k < currentMessageId s)"

section \<open>Example data\<close>

text \<open>
  The two users of the scenarios, a store that holds both (ids 1 and 2, created at
  time 0), and a server over that store with no connection yet.
\<close>

definition alice :: InsertUser where
  "alice = \<lparr>username = ''alice'', password = ''pw1'', displayName = ''Alice''\<rparr>"

definition bob :: InsertUser where
  "bob = \<lparr>username = ''bob'', password = ''pw2'', displayName = ''Bob''\<rparr>"

definition two_users :: MemStorage where
  "two_users = snd (MemStorage_createUser bob 0 (snd (MemStorage_createUser alice 0 MemStorage_new)))"

definition hi_from_alice :: MemStorage where
  "hi_from_alice =
     snd (MemStorage_createMessage \<lparr>senderId = 1, receiverId = 2, content = ''hi''\<rparr> 10 two_users)"

definition server0 :: "MemStorage Server" where
  "server0 = Server_new two_users"

text \<open>
  Alice connects (connection 11) and authenticates at time 1, then Bob (connection 12)
  at time 2; then Alice sends \<open>hi\<close> to Bob at time 10.
\<close>

definition alice_online :: "MemStorage Server" where
  "alice_online =
     ws_on_message MemStorage_IStorage 11 (Authenticate (Some 1)) 1
       (ws_on_connection 11 server0)"

definition both_online :: "MemStorage Server" where
  "both_online =
     ws_on_message MemStorage_IStorage 12 (Authenticate (Some 2)) 2
       (ws_on_connection 12 alice_online)"

definition after_hi :: "MemStorage Server" where
  "after_hi = ws_on_message MemStorage_IStorage 11 (SendMessage 2 ''hi'') 10 both_online"

text \<open>
  Alice's connection 11 starts closing; she reconnects on connection 13 and authenticates
  at time 5; then the close of connection 11 is processed at time 6.
\<close>

definition reconnected :: "MemStorage Server" where
  "reconnected =
     ws_on_message MemStorage_IStorage 13 (Authenticate (Some 1)) 5
       (ws_on_connection 13 (set_readyState 11 CLOSING alice_online))"

definition stale_closed :: "MemStorage Server" where
  "stale_closed = ws_on_close MemStorage_IStorage 11 6 (set_readyState 11 CLOSED reconnected)"

text \<open>
  Alice's connection 11, registered for user 1, sends \<open>authenticate\<close> again at time 3,
  now with the user id 2.
\<close>

definition reauthenticated :: "MemStorage Server" where
  "reauthenticated =
     ws_on_message MemStorage_IStorage 11 (Authenticate (Some 2)) 3 alice_online"

text \<open>Two traces of the in-memory store, and a MongoDB database with one read message.\<close>

definition trace_read :: "(MemOp \<times> int) list" where
  "trace_read =
     [(CreateUser alice, 0), (CreateUser bob, 0),
      (CreateMessage \<lparr>senderId = 1, receiverId = 2, content = ''hi''\<rparr>, 10),
      (MarkMessageAsRead 1, 20)]"

definition trace_more :: "(MemOp \<times> int) list" where
  "trace_more =
     [(CreateMessage \<lparr>senderId = 2, receiverId = 1, content = ''yo''\<rparr>, 30),
      (UpdateUserStatus 1 False, 40), (MarkMessageAsRead 1, 50)]"

definition read_document :: MongoDBMessage where
  "read_document =
     \<lparr>senderId = 1, receiverId = 2, content = ''hi'', sentAt = 10, isRead = True,
      Message_oid = ObjectId 7\<rparr>"

definition mongo_one_read :: MongoDB where
  "mongo_one_read = MongoDB_empty\<lparr>messages_collection := [read_document]\<rparr>"

section \<open>Facts about the containers and the send log\<close>

lemma Map_get_set:
  "Map_get (Map_set m k v) k' = (if k' = k then Some v else Map_get m k')"
  by (simp add: Map_get_def Map_set_def update_conv')

lemma Map_keys_set:
  "map fst (Map_set m k v) = (if k \<in> set (map fst m) then map fst m else map fst m @ [k])"
  by (simp add: Map_set_def update_keys)

lemma Map_get_delete:
  "Map_get (Map_delete m k) k' = (if k' = k then None else Map_get m k')"
  by (simp add: Map_get_def Map_delete_def delete_conv')

lemma Map_get_Some_key: "Map_get m k = Some v \<Longrightarrow> k \<in> set (map fst m)"
  by (metis Map_get_def map_of_eq_None_iff option.distinct(1) set_map)

lemma send_fields [simp]:
  "storage (send w m s) = storage s" "clients (send w m s) = clients s"
  "conn_userId (send w m s) = conn_userId s" "readyState (send w m s) = readyState s"
  "sent (send w m s) = sent s @ [(w, m)]"
  by (simp_all add: send_def)

lemma send_if_open_fields [simp]:
  "storage (send_if_open k m s) = storage s" "clients (send_if_open k m s) = clients s"
  "conn_userId (send_if_open k m s) = conn_userId s"
  "readyState (send_if_open k m s) = readyState s"
  by (simp_all add: send_if_open_def split: option.splits)

lemma sent_send_if_open:
  "sent (send_if_open k m s) =
     sent s @ (case Map_get (clients s) k of
                 None \<Rightarrow> []
               | Some w \<Rightarrow> if readyState s w = OPEN then [(w, m)] else [])"
  by (simp add: send_if_open_def split: option.splits)

lemmas example_defs =
  alice_def bob_def two_users_def hi_from_alice_def server0_def alice_online_def
  both_online_def after_hi_def reconnected_def stale_closed_def reauthenticated_def
  trace_read_def trace_more_def read_document_def mongo_one_read_def

lemmas eval_defs =
  MemStorage_new_def MemStorage_getUser_def MemStorage_createUser_def
  MemStorage_createMessage_def MemStorage_updateUserStatus_def
  MemStorage_markMessageAsRead_def MemStorage_addContact_def MemStorage_getContacts_def
  MemStorage_IStorage_def returns_def Server_new_def
  ws_on_connection_def ws_on_close_def set_readyState_def Map_get_def Map_has_def
  Map_set_def Map_delete_def Map_values_def truthy_def send_def send_if_open_def Let_def

section \<open>Protocol errors on a live connection\<close>

text \<open>
  Claim C9. An inbound event that is a protocol error is dropped without any effect: text
  that does not parse, an envelope of an unknown type, and any event other than
  \<open>authenticate\<close> that arrives while the connection's \<open>userId\<close> is not set. The server
  state after the handler is the state before it, whatever the store behind the
  interface: the connection keeps its \<open>readyState\<close> and its \<open>userId\<close>, the registry and
  the store are the same, and \<open>send\<close> has not been called on any connection.
\<close>

theorem protocol_error_dropped:
  assumes "ev = Unparseable \<or> (\<exists>t. ev = UnknownType t) \<or>
           (\<not> truthy (conn_userId s c) \<and> (\<forall>uid. ev \<noteq> Authenticate uid))"
  shows "ws_on_message S c ev now s = s"
  using assms by (cases ev) auto

theorem protocol_error_dropped_witness:
  "\<not> truthy (conn_userId (ws_on_connection 12 alice_online) 12) \<and>
   ws_on_message MemStorage_IStorage 12 (SendMessage 1 ''hi'') 3 (ws_on_connection 12 alice_online)
     = ws_on_connection 12 alice_online \<and>
   ws_on_message MemStorage_IStorage 11 Unparseable 3 alice_online = alice_online \<and>
   ws_on_message MemStorage_IStorage 11 (UnknownType ''status_change'') 3 alice_online
     = alice_online"
proof -
  have unauth: "\<not> truthy (conn_userId (ws_on_connection 12 alice_online) 12)"
    by (simp add: ws_on_connection_def truthy_def)
  have "ws_on_message MemStorage_IStorage 12 (SendMessage 1 ''hi'') 3
          (ws_on_connection 12 alice_online) = ws_on_connection 12 alice_online"
    by (rule protocol_error_dropped) (use unauth in simp)
  moreover have "ws_on_message MemStorage_IStorage 11 Unparseable 3 alice_online = alice_online"
    by (rule protocol_error_dropped) simp
  moreover have
    "ws_on_message MemStorage_IStorage 11 (UnknownType ''status_change'') 3 alice_online
       = alice_online"
    by (rule protocol_error_dropped) simp
  ultimately show ?thesis using unauth by blast
qed

section \<open>Marking a message read\<close>

lemma markMessageAsRead_frame:
  assumes "MemStorage_markMessageAsRead k st = (r, st')"
  shows "users st' = users st \<and> contacts st' = contacts st \<and>
         currentUserId st' = currentUserId st \<and>
         currentContactId st' = currentContactId st \<and>
         currentMessageId st' = currentMessageId st \<and>
         map fst (messages st') = map fst (messages st) \<and>
         (\<forall>k'. k' \<noteq> k \<longrightarrow> Map_get (messages st') k' = Map_get (messages st) k') \<and>
         (case Map_get (messages st) k of
            None \<Rightarrow> r = None \<and> st' = st
          | Some m \<Rightarrow> r = Some (m\<lparr>isRead := True\<rparr>) \<and>
                      Map_get (messages st') k = Some (m\<lparr>isRead := True\<rparr>))"
  using assms
  by (auto simp: MemStorage_markMessageAsRead_def Map_get_set Map_keys_set Let_def
           dest: Map_get_Some_key split: option.splits)

lemma read_receipt_storage:
  "storage (ws_on_message MemStorage_IStorage c (ReadReceipt k) now s) =
     (if truthy (conn_userId s c) then snd (MemStorage_markMessageAsRead k (storage s))
      else storage s)"
  by (simp add: MemStorage_IStorage_def returns_def Let_def
           split: prod.splits sum.splits option.splits)

lemma read_receipt_sent:
  "\<exists>ws. length ws \<le> 1 \<and>
        sent (ws_on_message MemStorage_IStorage c (ReadReceipt k) now s) =
          sent s @ map (\<lambda>w. (w, WS_read_receipt k now)) ws"
proof (cases "truthy (conn_userId s c)")
  case False
  then show ?thesis by (intro exI[of _ "[]"]) simp
next
  case True
  show ?thesis
  proof (cases "fst (MemStorage_markMessageAsRead k (storage s))")
    case None
    with True show ?thesis
      by (intro exI[of _ "[]"]) (simp add: MemStorage_IStorage_def returns_def Let_def)
  next
    case marked: (Some m)
    show ?thesis
    proof (cases "Map_get (clients s) (senderId m)")
      case None
      with True marked show ?thesis
        by (intro exI[of _ "[]"])
           (simp add: MemStorage_IStorage_def returns_def Let_def sent_send_if_open)
    next
      case (Some w)
      with True marked show ?thesis
        by (intro exI[of _ "if readyState s w = OPEN then [w] else []"])
           (simp add: MemStorage_IStorage_def returns_def Let_def sent_send_if_open)
    qed
  qed
qed

text \<open>
  Claim C10. \<open>markMessageAsRead k\<close> of the in-memory store leaves the users, the contacts
  and the three counters as they were, keeps the keys of the message map and their
  order, and leaves the message under every other key untouched; when there is a message
  under \<open>k\<close> it is replaced by itself with \<open>isRead\<close> set (\<open>id\<close>, \<open>senderId\<close>, \<open>receiverId\<close>,
  \<open>content\<close> and \<open>sentAt\<close> as before) and returned, otherwise nothing changes. No time of
  reading reaches the store: after a \<open>read_receipt\<close> event the store is the one
  \<open>markMessageAsRead\<close> leaves, the same whatever the clock showed, and the \<open>readAt\<close> of
  every \<open>read_receipt\<close> pushed by the handler (at most one) is the clock value read when
  pushing.
\<close>

theorem read_receipt_frame:
  assumes "MemStorage_markMessageAsRead k st = (r, st')"
  shows "(users st' = users st \<and> contacts st' = contacts st \<and>
          currentUserId st' = currentUserId st \<and>
          currentContactId st' = currentContactId st \<and>
          currentMessageId st' = currentMessageId st \<and>
          map fst (messages st') = map fst (messages st) \<and>
          (\<forall>k'. k' \<noteq> k \<longrightarrow> Map_get (messages st') k' = Map_get (messages st) k') \<and>
          (case Map_get (messages st) k of
             None \<Rightarrow> r = None \<and> st' = st
           | Some m \<Rightarrow> r = Some (m\<lparr>isRead := True\<rparr>) \<and>
                       Map_get (messages st') k = Some (m\<lparr>isRead := True\<rparr>))) \<and>
         storage (ws_on_message MemStorage_IStorage c (ReadReceipt k) now s) =
           (if truthy (conn_userId s c) then snd (MemStorage_markMessageAsRead k (storage s))
            else storage s) \<and>
         storage (ws_on_message MemStorage_IStorage c (ReadReceipt k) now s) =
           storage (ws_on_message MemStorage_IStorage c (ReadReceipt k) now' s) \<and>
         (\<exists>ws. length ws \<le> 1 \<and>
               sent (ws_on_message MemStorage_IStorage c (ReadReceipt k) now s) =
                 sent s @ map (\<lambda>w. (w, WS_read_receipt k now)) ws)"
  using markMessageAsRead_frame[OF assms] read_receipt_sent[of c k now s]
  by (simp only: read_receipt_storage) simp

theorem read_receipt_frame_witness:
  "MemStorage_markMessageAsRead 1 (storage after_hi) =
     (Some \<lparr>senderId = 1, receiverId = 2, content = ''hi'',
            sentAt = 10, isRead = True, Message_id = 1\<rparr>,
      (storage after_hi)\<lparr>messages :=
        [(1, \<lparr>senderId = 1, receiverId = 2, content = ''hi'',
              sentAt = 10, isRead = True, Message_id = 1\<rparr>)]\<rparr>) \<and>
   users (snd (MemStorage_markMessageAsRead 1 (storage after_hi))) = users (storage after_hi) \<and>
   truthy (conn_userId after_hi 12) \<and>
   storage (ws_on_message MemStorage_IStorage 12 (ReadReceipt 1) 20 after_hi) =
     storage (ws_on_message MemStorage_IStorage 12 (ReadReceipt 1) 99 after_hi)"
proof -
  have run: "MemStorage_markMessageAsRead 1 (storage after_hi) =
     (Some \<lparr>senderId = 1, receiverId = 2, content = ''hi'',
            sentAt = 10, isRead = True, Message_id = 1\<rparr>,
      (storage after_hi)\<lparr>messages :=
        [(1, \<lparr>senderId = 1, receiverId = 2, content = ''hi'',
              sentAt = 10, isRead = True, Message_id = 1\<rparr>)]\<rparr>)"
    by (simp add: example_defs eval_defs)
  have auth: "truthy (conn_userId after_hi 12)"
    by (simp add: example_defs eval_defs)
  note frame = read_receipt_frame[OF run, of 12 20 after_hi 99]
  from frame have
    "users (snd (MemStorage_markMessageAsRead 1 (storage after_hi))) = users (storage after_hi)"
    by (simp only: run snd_conv)
  moreover from frame have
    "storage (ws_on_message MemStorage_IStorage 12 (ReadReceipt 1) 20 after_hi) =
     storage (ws_on_message MemStorage_IStorage 12 (ReadReceipt 1) 99 after_hi)"
    by blast
  ultimately show ?thesis using run auth by blast
qed

section \<open>The message event\<close>

text \<open>
  The \<open>message\<close> branch on a connection whose \<open>userId\<close> is set, for any store behind the
  interface: when \<open>createMessage\<close> throws, only the store it left behind changes; when it
  returns \<open>m\<close>, \<open>m\<close> is sent to the receiver's registered connection if there is one and
  it is open, and then \<open>message_sent\<close> with \<open>m\<close> is sent on the sender's connection.
\<close>

lemma send_message_generic:
  assumes "conn_userId s c = Some u" and "u \<noteq> 0"
  shows "ws_on_message S c (SendMessage rid text) now s =
     (case createMessage S \<lparr>senderId = u, receiverId = rid, content = text\<rparr> now (storage s) of
        (Inl e, st) \<Rightarrow> s\<lparr>storage := st\<rparr>
      | (Inr m, st) \<Rightarrow>
          s\<lparr>storage := st,
            sent := sent s @
              (case Map_get (clients s) rid of
                 None \<Rightarrow> []
               | Some w \<Rightarrow> if readyState s w = OPEN then [(w, WS_message m)] else []) @
              [(c, WS_message_sent m)]\<rparr>)"
  using assms
  by (simp add: truthy_def Let_def send_def send_if_open_def
           split: prod.splits sum.splits option.splits)

text \<open>
  Claim C3. On a connection authenticated as \<open>u\<close>, a \<open>message\<close> event for \<open>rid\<close> with the
  in-memory store persists the message \<open>m\<close> (the sender, receiver and content of the
  event, the next message id, the clock value and \<open>isRead = false\<close>): the store holds \<open>m\<close>
  under its id afterwards. The calls of \<open>send\<close> made by the handler are: \<open>message\<close> with
  \<open>m\<close> on the connection registered for \<open>rid\<close>, exactly when there is one and it is
  open; then \<open>message_sent\<close> with \<open>m\<close> on the sender's connection, always. For any store
  behind the interface: if \<open>createMessage\<close> throws nothing is sent, and if it returns a
  message, the store is the one it left and the two pushes carry that message.
\<close>

theorem message_event_delivery:
  assumes "conn_userId s c = Some u" and "u \<noteq> 0"
  shows
   "(let m = \<lparr>senderId = u, receiverId = rid, content = text,
              sentAt = now, isRead = False, Message_id = currentMessageId (storage s)\<rparr>;
         s' = ws_on_message MemStorage_IStorage c (SendMessage rid text) now s
     in Map_get (messages (storage s')) (Message_id m) = Some m \<and>
        sent s' = sent s @
          (case Map_get (clients s) rid of
             None \<Rightarrow> []
           | Some w \<Rightarrow> if readyState s w = OPEN then [(w, WS_message m)] else []) @
          [(c, WS_message_sent m)]) \<and>
    (\<forall>S e st. createMessage S \<lparr>senderId = u, receiverId = rid, content = text\<rparr> now (storage s)
                 = (Inl e, st) \<longrightarrow>
        sent (ws_on_message S c (SendMessage rid text) now s) = sent s) \<and>
    (\<forall>S m st. createMessage S \<lparr>senderId = u, receiverId = rid, content = text\<rparr> now (storage s)
                 = (Inr m, st) \<longrightarrow>
        storage (ws_on_message S c (SendMessage rid text) now s) = st \<and>
        sent (ws_on_message S c (SendMessage rid text) now s) = sent s @
          (case Map_get (clients s) rid of
             None \<Rightarrow> []
           | Some w \<Rightarrow> if readyState s w = OPEN then [(w, WS_message m)] else []) @
          [(c, WS_message_sent m)])"
  by (simp add: send_message_generic[OF assms] MemStorage_IStorage_def returns_def
        MemStorage_createMessage_def Let_def Map_get_set del: ws_on_message.simps)

theorem message_event_delivery_witness:
  "conn_userId both_online 11 = Some 1 \<and> (1::int) \<noteq> 0 \<and>
   Map_get (messages (storage after_hi)) 1 =
     Some \<lparr>senderId = 1, receiverId = 2, content = ''hi'',
           sentAt = 10, isRead = False, Message_id = 1\<rparr> \<and>
   sent after_hi = sent both_online @
     [(12, WS_message \<lparr>senderId = 1, receiverId = 2, content = ''hi'',
                       sentAt = 10, isRead = False, Message_id = 1\<rparr>),
      (11, WS_message_sent \<lparr>senderId = 1, receiverId = 2, content = ''hi'',
                            sentAt = 10, isRead = False, Message_id = 1\<rparr>)]"
proof -
  have auth: "conn_userId both_online 11 = Some 1"
    by (simp add: example_defs eval_defs)
  have before: "currentMessageId (storage both_online) = 1"
    "Map_get (clients both_online) 2 = Some 12" "readyState both_online 12 = OPEN"
    by (simp_all add: example_defs eval_defs)
  have "(1::int) \<noteq> 0" by simp
  from message_event_delivery[OF auth this, of 2 "''hi''" 10]
  show ?thesis
    unfolding Let_def after_hi_def[symmetric]
    using auth by (simp add: before del: ws_on_message.simps)
qed

section \<open>Authentication and presence\<close>

lemma filter_other_update:
  "filter (\<lambda>(k, w). k \<noteq> u \<and> P w) (Map_set m u c) = filter (\<lambda>(k, w). k \<noteq> u \<and> P w) m"
  unfolding Map_set_def by (induction m) auto

text \<open>
  The \<open>authenticate\<close> branch with a user id \<open>u\<close> other than 0, over the in-memory store:
  the registry maps \<open>u\<close> to the connection and the connection's \<open>userId\<close> is \<open>u\<close>; a
  user \<open>u\<close> of the store is stored with \<open>isOnline\<close> set and no other user changes; and
  \<open>status_change\<close> for \<open>u\<close> online is sent once through every registry entry whose key
  is not \<open>u\<close> and whose connection is open, and through no other. The loop compares the
  keys of the registry with \<open>u\<close>, not the connections with the one that authenticates.
\<close>

lemma authenticate_broadcast:
  assumes "u \<noteq> 0"
  shows "(let s' = ws_on_message MemStorage_IStorage c (Authenticate (Some u)) now s
     in Map_get (clients s') u = Some c \<and> conn_userId s' c = Some u \<and>
     (case Map_get (users (storage s)) u of
        None \<Rightarrow> storage s' = storage s
      | Some usr \<Rightarrow> Map_get (users (storage s')) u = Some (usr\<lparr>isOnline := True\<rparr>) \<and>
          (\<forall>k. k \<noteq> u \<longrightarrow> Map_get (users (storage s')) k = Map_get (users (storage s)) k)) \<and>
     sent s' = sent s @ map (\<lambda>(k, w). (w, WS_status_change u True))
                         (filter (\<lambda>(k, w). k \<noteq> u \<and> readyState s w = OPEN) (clients s)))"
  using assms
  by (auto simp: truthy_def Let_def MemStorage_IStorage_def returns_def
        MemStorage_updateUserStatus_def Map_get_set filter_other_update
      split: option.splits prod.splits)

text \<open>
  Claim C8, evaluated. Alice, created at time 0, authenticates on connection 11 at time
  1: she is stored as online, but her \<open>lastSeen\<close> is still 0, not 1, because
  \<open>MemStorage.updateUserStatus\<close> writes \<open>lastSeen\<close> only when the user goes offline
  (\<open>MongoDBStorage.updateUserStatus\<close> writes it on every call). When the same
  connection then authenticates as user 2, the registry holds it under both ids, and the
  \<open>status_change\<close> for user 2 going online is sent to connection 11 itself, through its
  entry for user 1.
\<close>

theorem authenticate_keeps_lastSeen:
  "MemStorage_getUser 1
     (storage (ws_on_message MemStorage_IStorage 11 (Authenticate (Some 1)) 1
                (ws_on_connection 11 server0)))
   = Some \<lparr>username = ''alice'', password = ''pw1'', displayName = ''Alice'',
           isOnline = True, avatar = None, lastSeen = 0, User_id = 1\<rparr> \<and>
   map_option lastSeen
     (MemStorage_getUser 1
       (storage (ws_on_message MemStorage_IStorage 11 (Authenticate (Some 1)) 1
                  (ws_on_connection 11 server0))))
   \<noteq> Some 1 \<and>
   sent alice_online = [] \<and>
   conn_userId reauthenticated 11 = Some 2 \<and>
   clients reauthenticated = [(1, 11), (2, 11)] \<and>
   sent reauthenticated = [(11, WS_status_change 2 True)]"
  by (simp add: example_defs eval_defs)

section \<open>The read flag\<close>

lemma issued_step: "message_ids_issued s \<Longrightarrow> message_ids_issued (MemStorage_step op now s)"
  by (cases op)
     (auto simp: message_ids_issued_def MemStorage_createUser_def
        MemStorage_updateUserStatus_def MemStorage_updateUserLastSeen_def
        MemStorage_addContact_def MemStorage_removeContact_def MemStorage_createMessage_def
        MemStorage_markMessageAsRead_def Let_def Map_keys_set
        simp del: set_map dest: Map_get_Some_key split: option.splits if_splits)

lemma issued_run: "message_ids_issued s \<Longrightarrow> message_ids_issued (MemStorage_run tr s)"
  unfolding MemStorage_run_def
  by (induction tr arbitrary: s) (auto simp: issued_step)

lemma issued_new: "message_ids_issued MemStorage_new"
  by (simp add: message_ids_issued_def MemStorage_new_def)

lemma read_step:
  assumes "message_ids_issued s" and "Map_get (messages s) k = Some m" and "isRead m"
  shows "\<exists>m'. Map_get (messages (MemStorage_step op now s)) k = Some m' \<and> isRead m'"
proof (cases op)
  case (CreateMessage im)
  have "k \<in> set (map fst (messages s))"
    by (rule Map_get_Some_key[OF assms(2)])
  with assms(1) have "k \<noteq> currentMessageId s"
    unfolding message_ids_issued_def by blast
  with assms CreateMessage show ?thesis
    by (simp add: MemStorage_createMessage_def Let_def Map_get_set)
next
  case (MarkMessageAsRead j)
  with assms show ?thesis
    by (auto simp: MemStorage_markMessageAsRead_def Let_def Map_get_set split: option.splits)
qed (use assms in \<open>auto simp: MemStorage_createUser_def MemStorage_updateUserStatus_def
        MemStorage_updateUserLastSeen_def MemStorage_addContact_def
        MemStorage_removeContact_def Let_def split: option.splits\<close>)

lemma read_run:
  assumes "message_ids_issued s" and "Map_get (messages s) k = Some m" and "isRead m"
  shows "\<exists>m'. Map_get (messages (MemStorage_run tr s)) k = Some m' \<and> isRead m'"
  using assms
proof (induction tr arbitrary: s m)
  case Nil
  then show ?case by (simp add: MemStorage_run_def)
next
  case (Cons e tr)
  obtain op now where e: "e = (op, now)" by (cases e)
  from read_step[OF Cons.prems, of op now] obtain m1 where
    m1: "Map_get (messages (MemStorage_step op now s)) k = Some m1" "isRead m1" by blast
  from Cons.IH[OF issued_step[OF Cons.prems(1)] m1] e show ?case
    by (simp add: MemStorage_run_def)
qed

lemma run_append: "MemStorage_run (tr @ tr') s = MemStorage_run tr' (MemStorage_run tr s)"
  by (simp add: MemStorage_run_def)

lemma findOneAndUpdate_keeps:
  assumes "d \<in> set coll" and "Q d" and "\<And>x. Q x \<Longrightarrow> Q (f x)" and "\<And>x. key (f x) = key x"
  shows "\<exists>d' \<in> set (snd (findOneAndUpdate p f coll)). key d' = key d \<and> Q d'"
  using assms(1,2)
proof (induction coll)
  case Nil
  then show ?case by simp
next
  case (Cons x xs)
  show ?case
  proof (cases "p x")
    case True
    with Cons.prems assms(3,4) show ?thesis by auto
  next
    case False
    with Cons show ?thesis by (auto split: prod.splits)
  qed
qed

lemma mongo_read_step:
  assumes "d \<in> set (messages_collection db)" and "isRead d"
  shows "\<exists>d' \<in> set (messages_collection (MongoDBStorage_step parseInt newObjectId op now db)).
           Message_oid d' = Message_oid d \<and> isRead d'"
proof (cases op)
  case (MongoCreateMessage m oid)
  with assms show ?thesis
    by (auto simp: MongoDBStorage_createMessage_def insertOne_def Let_def split: option.splits)
next
  case (MongoMarkMessageAsRead k)
  show ?thesis
  proof (cases "newObjectId k")
    case None
    with assms MongoMarkMessageAsRead show ?thesis
      by (auto simp: MongoDBStorage_markMessageAsRead_def)
  next
    case (Some objectId)
    from findOneAndUpdate_keeps[where key = Message_oid and Q = isRead
        and f = "\<lambda>d. d\<lparr>isRead := True\<rparr>" and p = "\<lambda>d. Message_oid d = objectId", OF assms]
    have "\<exists>d' \<in> set (snd (findOneAndUpdate (\<lambda>d. Message_oid d = objectId)
              (\<lambda>d. d\<lparr>isRead := True\<rparr>) (messages_collection db))).
            Message_oid d' = Message_oid d \<and> isRead d'"
      by simp
    with Some MongoMarkMessageAsRead show ?thesis
      by (auto simp: MongoDBStorage_markMessageAsRead_def split: prod.splits option.splits)
  qed
qed

text \<open>
  Claim C6. In the in-memory store reached by any sequence of operations from the
  constructor's store, a message that is read stays stored under its id and read after
  any further sequence of operations; \<open>createMessage\<close> returns a message that is not
  read and the message \<open>markMessageAsRead\<close> returns is read. In the MongoDB store, for
  any database, a message document that is read is still there (same \<open>_id\<close>) and read
  after \<open>createMessage\<close> or \<open>markMessageAsRead\<close>, the two methods that write the
  collection.
\<close>

theorem read_flag_monotonic:
  "(\<forall>k m. Map_get (messages (MemStorage_run tr MemStorage_new)) k = Some m \<and> isRead m \<longrightarrow>
      (\<exists>m'. Map_get (messages (MemStorage_run (tr @ tr') MemStorage_new)) k = Some m' \<and>
            isRead m')) \<and>
   \<not> isRead (fst (MemStorage_createMessage im now s)) \<and>
   (\<forall>m s'. MemStorage_markMessageAsRead j s = (Some m, s') \<longrightarrow> isRead m) \<and>
   (\<forall>d \<in> set (messages_collection db). isRead d \<longrightarrow>
      (\<exists>d' \<in> set (messages_collection (MongoDBStorage_step parseInt newObjectId op now db)).
          Message_oid d' = Message_oid d \<and> isRead d'))"
proof (intro conjI allI impI ballI)
  fix k m
  assume "Map_get (messages (MemStorage_run tr MemStorage_new)) k = Some m \<and> isRead m"
  with read_run[OF issued_run[OF issued_new, of tr], of k m tr']
  show "\<exists>m'. Map_get (messages (MemStorage_run (tr @ tr') MemStorage_new)) k = Some m' \<and>
             isRead m'"
    by (simp add: run_append)
next
  show "\<not> isRead (fst (MemStorage_createMessage im now s))"
    by (simp add: MemStorage_createMessage_def Let_def)
next
  fix m s'
  assume "MemStorage_markMessageAsRead j s = (Some m, s')"
  then show "isRead m"
    by (auto simp: MemStorage_markMessageAsRead_def Let_def split: option.splits)
next
  fix d
  assume "d \<in> set (messages_collection db)" and "isRead d"
  then show "\<exists>d' \<in> set (messages_collection
                         (MongoDBStorage_step parseInt newObjectId op now db)).
               Message_oid d' = Message_oid d \<and> isRead d'"
    by (rule mongo_read_step)
qed

theorem read_flag_monotonic_witness:
  "Map_get (messages (MemStorage_run trace_read MemStorage_new)) 1 =
     Some \<lparr>senderId = 1, receiverId = 2, content = ''hi'', sentAt = 10, isRead = True,
           Message_id = 1\<rparr> \<and>
   (\<exists>m'. Map_get (messages (MemStorage_run (trace_read @ trace_more) MemStorage_new)) 1 =
            Some m' \<and> isRead m') \<and>
   read_document \<in> set (messages_collection mongo_one_read) \<and> isRead read_document \<and>
   (\<exists>d' \<in> set (messages_collection
                 (MongoDBStorage_step (\<lambda>_. 507) (\<lambda>_. Some (ObjectId 7))
                    (MongoMarkMessageAsRead 7) 60 mongo_one_read)).
       Message_oid d' = Message_oid read_document \<and> isRead d')"
proof -
  have stored: "Map_get (messages (MemStorage_run trace_read MemStorage_new)) 1 =
     Some \<lparr>senderId = 1, receiverId = 2, content = ''hi'', sentAt = 10, isRead = True,
           Message_id = 1\<rparr>"
    by (simp add: MemStorage_run_def example_defs eval_defs)
  have doc: "read_document \<in> set (messages_collection mongo_one_read)" "isRead read_document"
    by (simp_all add: mongo_one_read_def read_document_def)
  note mono = read_flag_monotonic[where tr = trace_read and tr' = trace_more
      and db = mongo_one_read and parseInt = "\<lambda>_. 507"
      and newObjectId = "\<lambda>_. Some (ObjectId 7)" and op = "MongoMarkMessageAsRead 7"
      and now = 60]
  from mono stored have
    "\<exists>m'. Map_get (messages (MemStorage_run (trace_read @ trace_more) MemStorage_new)) 1 =
            Some m' \<and> isRead m'"
    by simp
  moreover from mono doc have
    "\<exists>d' \<in> set (messages_collection
                 (MongoDBStorage_step (\<lambda>_. 507) (\<lambda>_. Some (ObjectId 7))
                    (MongoMarkMessageAsRead 7) 60 mongo_one_read)).
       Message_oid d' = Message_oid read_document \<and> isRead d'"
    by blast
  ultimately show ?thesis using stored doc by blast
qed

section \<open>A stale close after a reconnect\<close>

text \<open>
  Claim C1, evaluated. Alice is authenticated on connection 11, which starts closing;
  she authenticates again on connection 13, so the registry maps her to 13. When the
  close of connection 11 is then processed, \<open>clients.delete(userId)\<close> removes the entry
  of connection 13, which is still open, and Alice is stored as offline.
\<close>

theorem stale_close_removes_new_entry:
  "clients reconnected = [(1, 13)] \<and> readyState reconnected 13 = OPEN \<and>
   clients stale_closed = [] \<and> readyState stale_closed 13 = OPEN \<and>
   MemStorage_getUser 1 (storage stale_closed) =
     Some \<lparr>username = ''alice'', password = ''pw1'', displayName = ''Alice'',
           isOnline = False, avatar = None, lastSeen = 6, User_id = 1\<rparr>"
  by (simp add: example_defs eval_defs)

section \<open>Adding a contact twice\<close>

text \<open>
  Claim C5, evaluated on the in-memory store. The second \<open>addContact\<close> of Alice's edge to
  Bob returns a new edge, with id 2, and the store holds both edges.
\<close>

theorem addContact_twice_in_memory:
  "MemStorage_addContact \<lparr>userId = 1, contactId = 2\<rparr> two_users =
     (\<lparr>userId = 1, contactId = 2, Contact_id = 1\<rparr>,
      two_users\<lparr>currentContactId := 2,
        contacts := [(1, \<lparr>userId = 1, contactId = 2, Contact_id = 1\<rparr>)]\<rparr>) \<and>
   fst (MemStorage_addContact \<lparr>userId = 1, contactId = 2\<rparr>
         (snd (MemStorage_addContact \<lparr>userId = 1, contactId = 2\<rparr> two_users))) =
     \<lparr>userId = 1, contactId = 2, Contact_id = 2\<rparr> \<and>
   contacts (snd (MemStorage_addContact \<lparr>userId = 1, contactId = 2\<rparr>
                   (snd (MemStorage_addContact \<lparr>userId = 1, contactId = 2\<rparr> two_users)))) =
     [(1, \<lparr>userId = 1, contactId = 2, Contact_id = 1\<rparr>),
      (2, \<lparr>userId = 1, contactId = 2, Contact_id = 2\<rparr>)]"
  by (simp add: example_defs eval_defs)

text \<open>
  The MongoDB store does what the claim says: once \<open>addContact\<close> has returned an edge,
  adding the same pair again returns that edge and leaves the database as it is.
\<close>

lemma find_append_new:
  "find p xs = None \<Longrightarrow> find p (xs @ [x]) = (if p x then Some x else None)"
  by (induction xs) (auto split: if_splits)

lemma MongoDBStorage_addContact_idempotent:
  assumes "MongoDBStorage_addContact parseInt e oid db = (Inr c, db')"
  shows "MongoDBStorage_addContact parseInt e oid' db' = (Inr c, db')"
proof (cases "find (\<lambda>d. userId d = userId e \<and> contactId d = contactId e)
               (contacts_collection db)")
  case (Some existing)
  with assms show ?thesis
    by (auto simp: MongoDBStorage_addContact_def findOne_def)
next
  case None
  let ?doc = "\<lparr>userId = userId e, contactId = contactId e, Contact_oid = oid\<rparr>"
  from None assms have
    no_clash: "\<not> list_ex (\<lambda>d. contacts_clash d ?doc) (contacts_collection db)"
    by (auto simp: MongoDBStorage_addContact_def findOne_def insertOne_def Let_def
             split: if_splits)
  then have "find (\<lambda>d. Contact_oid d = oid) (contacts_collection db) = None"
    by (auto simp: find_None_iff list_ex_iff contacts_clash_def)
  then have by_id: "find (\<lambda>d. Contact_oid d = oid) (contacts_collection db @ [?doc]) = Some ?doc"
    by (simp add: find_append_new)
  from None
  have by_pair: "find (\<lambda>d. userId d = userId e \<and> contactId d = contactId e)
                   (contacts_collection db @ [?doc]) = Some ?doc"
    by (simp add: find_append_new)
  from None no_clash by_id assms
  have "c = mapMongoContactToContact parseInt ?doc"
    and "db' = db\<lparr>contacts_collection := contacts_collection db @ [?doc]\<rparr>"
    by (auto simp: MongoDBStorage_addContact_def findOne_def insertOne_def Let_def)
  with by_pair show ?thesis
    by (simp add: MongoDBStorage_addContact_def findOne_def)
qed

section \<open>The two stores compared\<close>

text \<open>
  Claim C2, evaluated. The two implementations of \<open>IStorage\<close> answer the same calls
  differently. \<open>createUser\<close> on the empty store returns a user who is offline from the
  in-memory store and online from the MongoDB store. \<open>addContact\<close> of the same pair
  twice returns two edges with different ids from the in-memory store and the same edge
  twice from the MongoDB store.
\<close>

theorem stores_disagree:
  "isOnline (fst (MemStorage_createUser alice 0 MemStorage_new)) = False \<and>
   map_sum (\<lambda>e. e) isOnline
     (fst (MongoDBStorage_createUser parseInt alice oid 0 MongoDB_empty)) = Inr True \<and>
   fst (MemStorage_addContact \<lparr>userId = 1, contactId = 2\<rparr>
         (snd (MemStorage_addContact \<lparr>userId = 1, contactId = 2\<rparr> MemStorage_new))) \<noteq>
   fst (MemStorage_addContact \<lparr>userId = 1, contactId = 2\<rparr> MemStorage_new) \<and>
   fst (MongoDBStorage_addContact parseInt \<lparr>userId = 1, contactId = 2\<rparr> oid'
         (snd (MongoDBStorage_addContact parseInt \<lparr>userId = 1, contactId = 2\<rparr> oid
                MongoDB_empty))) =
   fst (MongoDBStorage_addContact parseInt \<lparr>userId = 1, contactId = 2\<rparr> oid MongoDB_empty)"
  by (simp add: alice_def eval_defs MongoDB_empty_def MongoDBStorage_createUser_def
        MongoDBStorage_addContact_def insertOne_def findOne_def mapMongoUserToUser_def
        mapMongoContactToContact_def)

section \<open>Recent conversations\<close>

text \<open>Every group of the conversation map holds at least one message.\<close>

lemma set_Map_set: "set (Map_set m k v) \<subseteq> insert (k, v) (set m)"
  unfolding Map_set_def by (induction m) auto

lemma Map_set_twice: "Map_set (Map_set m k v) k v' = Map_set m k v'"
  by (simp add: Map_set_def)

lemma group_message_eq:
  "\<exists>k v. group_message uid cm message = Map_set cm k (v @ [message])"
proof -
  let ?cid = "if senderId message = uid then receiverId message else senderId message"
  let ?cm = "if \<not> Map_has cm ?cid then Map_set cm ?cid [] else cm"
  have "group_message uid cm message =
          Map_set cm ?cid (the (Map_get ?cm ?cid) @ [message])"
    by (simp add: group_message_def Let_def Map_set_twice)
  then show ?thesis by blast
qed

lemma group_message_nonempty:
  assumes "\<forall>e \<in> set cm. snd e \<noteq> []"
  shows "\<forall>e \<in> set (group_message uid cm message). snd e \<noteq> []"
proof
  fix e assume e: "e \<in> set (group_message uid cm message)"
  from group_message_eq obtain k v where
    "group_message uid cm message = Map_set cm k (v @ [message])" by blast
  with e set_Map_set[of cm k "v @ [message]"]
  have "e = (k, v @ [message]) \<or> e \<in> set cm" by auto
  with assms show "snd e \<noteq> []" by auto
qed

lemma conversationMap_nonempty_aux:
  "\<forall>e \<in> set cm. snd e \<noteq> [] \<Longrightarrow>
   \<forall>e \<in> set (foldl (group_message uid) cm ms). snd e \<noteq> []"
proof (induction ms arbitrary: cm)
  case Nil
  then show ?case by simp
next
  case (Cons m ms)
  from Cons.IH[OF group_message_nonempty[OF Cons.prems]] show ?case by simp
qed

lemma conversationMap_nonempty:
  "(k, msgs) \<in> set (conversationMap_of uid ms) \<Longrightarrow> msgs \<noteq> []"
  using conversationMap_nonempty_aux[of "[]" uid ms]
  by (auto simp: conversationMap_of_def)

text \<open>
  Claim C4, evaluated on the in-memory store. Alice and Bob have no contact edge. After
  Alice's message to Bob, \<open>getRecentConversations\<close> returns an entry for Bob to Alice and
  an entry for Alice to Bob: it groups the user's messages by the other participant and
  never reads the contacts.
\<close>

theorem recent_conversations_without_contact:
  "MemStorage_getContacts 1 hi_from_alice = [] \<and>
   MemStorage_getContacts 2 hi_from_alice = [] \<and>
   MemStorage_getRecentConversations 1 hi_from_alice =
     [\<lparr>contact = \<lparr>username = ''bob'', password = ''pw2'', displayName = ''Bob'',
                  isOnline = False, avatar = None, lastSeen = 0, User_id = 2\<rparr>,
       lastMessage = \<lparr>senderId = 1, receiverId = 2, content = ''hi'', sentAt = 10,
                      isRead = False, Message_id = 1\<rparr>\<rparr>] \<and>
   MemStorage_getRecentConversations 2 hi_from_alice =
     [\<lparr>contact = \<lparr>username = ''alice'', password = ''pw1'', displayName = ''Alice'',
                  isOnline = False, avatar = None, lastSeen = 0, User_id = 1\<rparr>,
       lastMessage = \<lparr>senderId = 1, receiverId = 2, content = ''hi'', sentAt = 10,
                      isRead = False, Message_id = 1\<rparr>\<rparr>]"
  by (simp add: example_defs eval_defs MemStorage_getRecentConversations_def
        conversationMap_of_def group_message_def sort_descending_def
        List.map_filter_simps)

section \<open>A message to an unknown receiver\<close>

text \<open>
  Claim C7, evaluated. No user has the id 999. The route \<open>POST /api/messages\<close> answers a
  message from Alice to 999 with 404 and leaves the store as it is; the \<open>message\<close>
  event on Alice's connection stores the message, whose receiver is still not a user.
\<close>

theorem message_event_unknown_receiver:
  "MemStorage_getUser 999 (storage alice_online) = None \<and>
   post_api_messages MemStorage_IStorage (MemStorage_getUser 1 (storage alice_online))
       (Some 999) (Some ''x'') 10 (storage alice_online) =
     (JsonError 404 ''Receiver not found'', storage alice_online) \<and>
   Map_get (messages (storage
       (ws_on_message MemStorage_IStorage 11 (SendMessage 999 ''x'') 10 alice_online))) 1 =
     Some \<lparr>senderId = 1, receiverId = 999, content = ''x'', sentAt = 10, isRead = False,
           Message_id = 1\<rparr> \<and>
   MemStorage_getUser 999 (storage
       (ws_on_message MemStorage_IStorage 11 (SendMessage 999 ''x'') 10 alice_online)) = None"
  by (simp add: example_defs eval_defs post_api_messages_def)

theorem message_event_unknown_receiver_witness:
  "truthy (Some 999) \<and>
   fst (post_api_messages MemStorage_IStorage (MemStorage_getUser 1 (storage alice_online))
          (Some 999) (Some ''x'') 10 (storage alice_online)) =
     JsonError 404 ''Receiver not found'' \<and>
   map_option receiverId (Map_get (messages (storage
       (ws_on_message MemStorage_IStorage 11 (SendMessage 999 ''x'') 10 alice_online))) 1) =
     Some 999"
proof -
  have "truthy (Some 999)" by (simp add: truthy_def)
  with message_event_unknown_receiver show ?thesis by simp
qed

end
